theory Spec2Isabelle
  imports Complex_Main
begin

section \<open>Tensors and scalar arithmetic\<close>

text \<open>
  The program computes on torch tensors. A tensor of rank n is modelled as an n-fold nested
  list, outermost axis first: a \<open>[batch, sequence, hidden]\<close> tensor is a list (batch) of lists
  (positions) of vectors. Torch tensors are rectangular; a nested list is rectangular when
  all lists of one level have the same length, and the size of an axis is the length of the
  lists of that level.

  The scalar operations of the tensor runtime (IEEE floating point in the program) are a
  parameter of the model: every operation of the program on tensors is written out below
  in terms of them, and no theorem relies on a law of arithmetic that is not stated as a
  hypothesis.
\<close>

type_synonym 'a tensor2 = "'a list list"
type_synonym 'a tensor3 = "'a list list list"
type_synonym 'a tensor4 = "'a list list list list"

record 'a arith =
  f_add :: "'a \<Rightarrow> 'a \<Rightarrow> 'a"
  f_sub :: "'a \<Rightarrow> 'a \<Rightarrow> 'a"
  f_mul :: "'a \<Rightarrow> 'a \<Rightarrow> 'a"
  f_div :: "'a \<Rightarrow> 'a \<Rightarrow> 'a"
  f_sqrt :: "'a \<Rightarrow> 'a"
  f_exp :: "'a \<Rightarrow> 'a"
  f_log :: "'a \<Rightarrow> 'a"
  f_of_nat :: "nat \<Rightarrow> 'a"

text \<open>
  Exact real arithmetic. It is not the arithmetic of the program, whose floating-point
  operations round, underflow, overflow and give NaN for \<open>0 / 0\<close>: it is one arithmetic
  among those the theorems hold for, used to run the model on small inputs on which no
  operation rounds and nothing is divided by zero. No statement about the program is
  made for this arithmetic alone.
\<close>

definition real_arith :: "real arith" where
  "real_arith = \<lparr> f_add = (+), f_sub = (-), f_mul = (*), f_div = (/),
                  f_sqrt = sqrt, f_exp = exp, f_log = ln, f_of_nat = of_nat \<rparr>"

datatype error =
    AssertionError
  | UnboundLocalError
  | RuntimeError
  | IndexError
  | AttributeError
  | TypeError
  | KeyError

text \<open>\<open>sum\<close> of a list of scalars, from the left.\<close>

definition f_sum :: "'a arith \<Rightarrow> 'a list \<Rightarrow> 'a" where
  "f_sum ar xs = foldl (f_add ar) (f_of_nat ar 0) xs"

definition dot :: "'a arith \<Rightarrow> 'a list \<Rightarrow> 'a list \<Rightarrow> 'a" where
  "dot ar u v = f_sum ar (map2 (f_mul ar) u v)"

text \<open>\<open>m.t()\<close> and \<open>m.T\<close> of a matrix: entry \<open>(j, i)\<close> of the result is entry \<open>(i, j)\<close> of \<open>m\<close>.\<close>

definition ncols :: "'a tensor2 \<Rightarrow> nat" where
  "ncols m = (case m of [] \<Rightarrow> 0 | r # _ \<Rightarrow> length r)"

definition mT :: "'a tensor2 \<Rightarrow> 'a tensor2" where
  "mT m = map (\<lambda>j. map (\<lambda>r. r ! j) m) [0..<ncols m]"

text \<open>
  \<open>torch.matmul(a, b)\<close> of two matrices: entry \<open>(i, j)\<close> is the dot product of row \<open>i\<close> of
  \<open>a\<close> and column \<open>j\<close> of \<open>b\<close>; the width of \<open>a\<close> must be the height of \<open>b\<close>.
\<close>

definition matmul :: "'a arith \<Rightarrow> 'a tensor2 \<Rightarrow> 'a tensor2 \<Rightarrow> error + 'a tensor2" where
  "matmul ar a b =
     (if list_all (\<lambda>r. length r = length b) a
      then Inr (map (\<lambda>r. map (\<lambda>c. dot ar r c) (mT b)) a)
      else Inl RuntimeError)"

text \<open>\<open>x.norm(dim=-1, keepdim=True)\<close> on one vector of the last axis: the L2 norm.\<close>

definition norm_last :: "'a arith \<Rightarrow> 'a list \<Rightarrow> 'a" where
  "norm_last ar v = f_sqrt ar (f_sum ar (map (\<lambda>x. f_mul ar x x) v))"

text \<open>
  \<open>x / x.norm(dim=-1, keepdim=True)\<close>: every vector of the last axis is divided, entry by
  entry, by \<open>denominator\<close>, which is its norm and nothing else.
\<close>

definition denominator :: "'a arith \<Rightarrow> 'a list \<Rightarrow> 'a" where
  "denominator ar v = norm_last ar v"

definition normalize_vec :: "'a arith \<Rightarrow> 'a list \<Rightarrow> 'a list" where
  "normalize_vec ar v = map (\<lambda>x. f_div ar x (denominator ar v)) v"

definition normalize :: "'a arith \<Rightarrow> 'a tensor3 \<Rightarrow> 'a tensor3" where
  "normalize ar x = map (map (normalize_vec ar)) x"

section \<open>Projection heads\<close>

text \<open>
  \<open>nn.Linear(in_features, out_features, bias=False)\<close>: the weight is an
  \<open>[out_features, in_features]\<close> matrix and the layer maps every vector \<open>v\<close> of the last axis
  to the vector of its dot products with the rows of the weight. A vector whose length is
  not \<open>in_features\<close> makes the matrix product raise.
\<close>

record 'a Linear =
  in_features :: nat
  out_features :: nat
  weight :: "'a tensor2"

definition Linear_forward :: "'a arith \<Rightarrow> 'a Linear \<Rightarrow> 'a tensor3 \<Rightarrow> error + 'a tensor3" where
  "Linear_forward ar l x =
     (if list_all (list_all (\<lambda>v. length v = in_features l)) x
      then Inr (map (map (\<lambda>v. map (\<lambda>w. dot ar v w) (weight l))) x)
      else Inl RuntimeError)"

text \<open>
  What the program imports from torch and from the transformers library and calls while it
  builds its modules: the constructors \<open>nn.Linear\<close> (it gets the two sizes as the program
  passes them, the first may be \<open>None\<close>, and returns the layer with its initial weight, or
  raises), \<open>BertConfig(num_hidden_layers=n)\<close>, \<open>BertEncoder\<close> and \<open>BertPooler\<close>, and the
  three methods that \<open>AdaptorModule\<close> inherits from \<open>ModuleUtilsMixin\<close>. They are parameters
  of the model. \<open>'m\<close> is the type of the broadcastable masks the library builds; an encoder
  is called with the keyword arguments of \<open>encoder_args\<close> and returns
  \<open>encoder_outputs[0]\<close>, the refined sequence.
\<close>

record BertConfig =
  hidden_size :: nat
  num_hidden_layers :: nat
  is_decoder :: bool

record ('a, 'm) encoder_args =
  inputs_embeds :: "'a tensor3"
  attention_mask :: "'m"
  head_mask :: "'m"
  encoder_hidden_states :: "'a tensor3 option"
  encoder_attention_mask :: "'m option"
  past_key_values :: "'a tensor4 list list option"
  use_cache :: bool

record ('a, 'm) library =
  nn_Linear :: "nat option \<Rightarrow> nat \<Rightarrow> error + 'a Linear"
  new_BertConfig :: "nat \<Rightarrow> BertConfig"
  new_BertEncoder :: "BertConfig \<Rightarrow> error + (('a, 'm) encoder_args \<Rightarrow> error + 'a tensor3)"
  new_BertPooler :: "BertConfig \<Rightarrow> error + ('a tensor3 \<Rightarrow> error + 'a tensor2)"
  mixin_get_extended_attention_mask :: "'a tensor2 \<Rightarrow> nat \<times> nat \<Rightarrow> error + 'm"
  mixin_invert_attention_mask :: "'a tensor2 \<Rightarrow> error + 'm"
  mixin_get_head_mask :: "'a tensor2 option \<Rightarrow> nat \<Rightarrow> error + 'm"

record 'a Project =
  text_embed_dim :: nat
  vision_embed_dim :: "nat option"
  proj_projection_dim :: nat
  visual_projection :: "'a Linear"
  text_projection :: "'a Linear"

text \<open>\<open>Project.__init__(text_embed_dim, vision_embed_dim, projection_dim)\<close>.\<close>

definition Project_init ::
  "('a, 'm) library \<Rightarrow> nat \<Rightarrow> nat option \<Rightarrow> nat \<Rightarrow> error + 'a Project" where
  "Project_init lib text_dim vision_dim proj_dim =
     (case nn_Linear lib vision_dim proj_dim of
        Inl e \<Rightarrow> Inl e
      | Inr vp \<Rightarrow>
          (case nn_Linear lib (Some text_dim) proj_dim of
             Inl e \<Rightarrow> Inl e
           | Inr tp \<Rightarrow>
               Inr \<lparr> text_embed_dim = text_dim, vision_embed_dim = vision_dim,
                      proj_projection_dim = proj_dim,
                      visual_projection = vp, text_projection = tp \<rparr>))"

text \<open>
  \<open>Project.forward(text_embeds_, image_embeds_)\<close>: the text projection is applied first,
  then the visual one, then both are normalised; the returned pair is
  \<open>(image_embeds, text_embeds)\<close>. (The arguments \<open>text_embeds_\<close> and \<open>image_embeds_\<close> of the
  program are \<open>text_embeds_in\<close> and \<open>image_embeds_in\<close> here.)
\<close>

definition Project_forward ::
  "'a arith \<Rightarrow> 'a Project \<Rightarrow> 'a tensor3 \<Rightarrow> 'a tensor3 \<Rightarrow> error + ('a tensor3 \<times> 'a tensor3)" where
  "Project_forward ar self text_embeds_in image_embeds_in =
     (case Linear_forward ar (text_projection self) text_embeds_in of
        Inl e \<Rightarrow> Inl e
      | Inr text_embeds \<Rightarrow>
          (case Linear_forward ar (visual_projection self) image_embeds_in of
             Inl e \<Rightarrow> Inl e
           | Inr image_embeds \<Rightarrow>
               Inr (normalize ar image_embeds, normalize ar text_embeds)))"

section \<open>Fusion encoder\<close>

text \<open>
  \<open>AdaptorModule\<close>: its configuration, its two sub-modules and the inherited methods, as
  fields holding functions that return a value or raise.
\<close>

record ('a, 'm) AdaptorModule =
  config :: BertConfig
  encoder :: "('a, 'm) encoder_args \<Rightarrow> error + 'a tensor3"
  pooler :: "'a tensor3 \<Rightarrow> error + 'a tensor2"
  get_extended_attention_mask :: "'a tensor2 \<Rightarrow> nat \<times> nat \<Rightarrow> error + 'm"
  invert_attention_mask :: "'a tensor2 \<Rightarrow> error + 'm"
  get_head_mask :: "'a tensor2 option \<Rightarrow> nat \<Rightarrow> error + 'm"

text \<open>
  What \<open>AdaptorModule.forward\<close> returns. The four further fields of the program's result
  (\<open>past_key_values\<close>, \<open>hidden_states\<close>, \<open>attentions\<close>, \<open>cross_attentions\<close>) are copies of what
  the encoder returned beside the refined sequence; the program never reads them.
\<close>

record 'a module_output =
  last_hidden_state :: "'a tensor3"
  pooler_output :: "'a tensor2"

text \<open>\<open>AdaptorModule.__init__(config, num_hidden_layers)\<close>.\<close>

definition AdaptorModule_init ::
  "('a, 'm) library \<Rightarrow> BertConfig option \<Rightarrow> nat \<Rightarrow> error + ('a, 'm) AdaptorModule" where
  "AdaptorModule_init lib config_arg n_layers =
     (let cfg = (case config_arg of Some c \<Rightarrow> c | None \<Rightarrow> new_BertConfig lib n_layers) in
      case new_BertEncoder lib cfg of
        Inl e \<Rightarrow> Inl e
      | Inr enc \<Rightarrow>
          (case new_BertPooler lib cfg of
             Inl e \<Rightarrow> Inl e
           | Inr pool \<Rightarrow>
               Inr \<lparr> config = cfg, encoder = enc, pooler = pool,
                      get_extended_attention_mask = mixin_get_extended_attention_mask lib,
                      invert_attention_mask = mixin_invert_attention_mask lib,
                      get_head_mask = mixin_get_head_mask lib \<rparr>))"

text \<open>
  \<open>self.embeddings = lambda t, i: torch.cat([t, i], dim=1)\<close>: the two sequences of every
  batch entry are joined, text first. \<open>torch.cat\<close> raises unless the tensors agree in every
  axis but the one joined: here the batch size and the hidden width. The hidden width is
  read off the vectors: \<open>widths\<close> lists the distinct lengths of the vectors of a tensor, and
  the check is that the two tensors together have at most one. A sequence with no
  position holds no vector, so a nested list does not record the hidden width of a tensor
  whose sequences are all empty; for such a tensor the check cannot fail here, while
  \<open>torch.cat\<close> still compares the recorded widths. Tensors with an empty axis are in this
  sense outside the model (the forward call of the program fails on them in any case, at
  the selection of position 0).
\<close>

definition widths :: "'a tensor3 \<Rightarrow> nat list" where
  "widths x = remdups (concat (map (map length) x))"

definition embeddings :: "'a tensor3 \<Rightarrow> 'a tensor3 \<Rightarrow> error + 'a tensor3" where
  "embeddings t i =
     (if length t = length i \<and> length (remdups (widths t @ widths i)) \<le> 1
      then Inr (map2 (@) t i)
      else Inl RuntimeError)"

text \<open>\<open>torch.ones((b, n))\<close>.\<close>

definition ones :: "'a arith \<Rightarrow> nat \<Rightarrow> nat \<Rightarrow> 'a tensor2" where
  "ones ar b n = replicate b (replicate n (f_of_nat ar 1))"

text \<open>The size of axis 1 and of axis 2 of a nested list, read off its first entries.\<close>

definition size1 :: "'a list list \<Rightarrow> nat" where
  "size1 x = (case x of [] \<Rightarrow> 0 | r # _ \<Rightarrow> length r)"

definition size2 :: "'a list list list \<Rightarrow> nat" where
  "size2 x = (case x of [] \<Rightarrow> 0 | r # _ \<Rightarrow> size1 r)"

text \<open>\<open>past_key_values[0][0].shape[2]\<close>; indexing an empty tuple raises.\<close>

definition past_length :: "'a tensor4 list list \<Rightarrow> error + nat" where
  "past_length pkv =
     (case pkv of
        [] \<Rightarrow> Inl IndexError
      | layer # _ \<Rightarrow> (case layer of [] \<Rightarrow> Inl IndexError | k # _ \<Rightarrow> Inr (size2 k)))"

text \<open>
  \<open>AdaptorModule.forward\<close>, called with \<open>return_dict=True\<close>, the default with which the
  program calls it. The flags \<open>output_attentions\<close> and \<open>output_hidden_states\<close> only select
  further outputs of the encoder that the program does not read; \<open>token_type_ids\<close> is
  computed by the program and never used.
\<close>

definition AdaptorModule_forward ::
  "'a arith \<Rightarrow> ('a, 'm) AdaptorModule \<Rightarrow> 'a tensor3 \<Rightarrow> 'a tensor3 \<Rightarrow>
   'a tensor2 option \<Rightarrow> 'a tensor2 option \<Rightarrow> 'a tensor3 option \<Rightarrow> 'a tensor2 option \<Rightarrow>
   'a tensor4 list list option \<Rightarrow> error + 'a module_output" where
  "AdaptorModule_forward ar self text_in image_in attention_mask_arg head_mask_arg
       encoder_hidden_states_arg encoder_attention_mask_arg past_key_values_arg =
     (case embeddings text_in image_in of
        Inl e \<Rightarrow> Inl e
      | Inr embeds \<Rightarrow>
     (let batch_size = length embeds; seq_length = size1 embeds in
     (case (case past_key_values_arg of None \<Rightarrow> Inr 0 | Some pkv \<Rightarrow> past_length pkv) of
        Inl e \<Rightarrow> Inl e
      | Inr past_key_values_length \<Rightarrow>
     (let mask = (case attention_mask_arg of
                    None \<Rightarrow> ones ar batch_size (seq_length + past_key_values_length)
                  | Some m \<Rightarrow> m) in
     (case get_extended_attention_mask self mask (batch_size, seq_length) of
        Inl e \<Rightarrow> Inl e
      | Inr extended_attention_mask \<Rightarrow>
     (case (case encoder_hidden_states_arg of
              Some ehs \<Rightarrow>
                (if is_decoder (config self)
                 then (case invert_attention_mask self
                              (case encoder_attention_mask_arg of
                                 None \<Rightarrow> ones ar (length ehs) (size1 ehs)
                               | Some m \<Rightarrow> m) of
                         Inl e \<Rightarrow> Inl e
                       | Inr inverted \<Rightarrow> Inr (Some inverted))
                 else Inr None)
            | None \<Rightarrow> Inr None) of
        Inl e \<Rightarrow> Inl e
      | Inr encoder_extended_attention_mask \<Rightarrow>
     (case get_head_mask self head_mask_arg (num_hidden_layers (config self)) of
        Inl e \<Rightarrow> Inl e
      | Inr hm \<Rightarrow>
     (case encoder self
             \<lparr> inputs_embeds = embeds, attention_mask = extended_attention_mask,
               head_mask = hm, encoder_hidden_states = encoder_hidden_states_arg,
               encoder_attention_mask = encoder_extended_attention_mask,
               past_key_values = past_key_values_arg, use_cache = False \<rparr> of
        Inl e \<Rightarrow> Inl e
      | Inr sequence_output \<Rightarrow>
     (case pooler self sequence_output of
        Inl e \<Rightarrow> Inl e
      | Inr pooled_output \<Rightarrow>
          Inr \<lparr> last_hidden_state = sequence_output,
                 pooler_output = pooled_output \<rparr>)))))))))"

section \<open>Contrastive loss\<close>

text \<open>
  Modelled from the spec: \<open>clip_loss\<close>, which the program imports from the transformers
  library and which is not among the sources. The spec describes it as the cross-entropy
  of the similarity matrix against the identity permutation (row \<open>i\<close> has target \<open>i\<close>, the
  diagonal holds the positive pairs), averaged with the same cross-entropy of the
  transposed matrix: the two are added and the sum is halved. The cross-entropy of a row
  is the logarithm of the sum of the exponentials of its entries minus its target entry,
  and the rows are averaged. A row that has no entry at its target position is an error.
\<close>

definition contrastive_loss :: "'a arith \<Rightarrow> 'a tensor2 \<Rightarrow> error + 'a" where
  "contrastive_loss ar logits =
     (if list_all (\<lambda>r. length logits \<le> length r) logits
      then Inr (f_div ar
             (f_sum ar (map (\<lambda>i. f_sub ar (f_log ar (f_sum ar (map (f_exp ar) (logits ! i))))
                                         (logits ! i ! i))
                         [0..<length logits]))
             (f_of_nat ar (length logits)))
      else Inl IndexError)"

definition clip_loss :: "'a arith \<Rightarrow> 'a tensor2 \<Rightarrow> error + 'a" where
  "clip_loss ar similarity =
     (case contrastive_loss ar similarity of
        Inl e \<Rightarrow> Inl e
      | Inr caption_loss \<Rightarrow>
          (case contrastive_loss ar (mT similarity) of
             Inl e \<Rightarrow> Inl e
           | Inr image_loss \<Rightarrow>
               Inr (f_div ar (f_add ar caption_loss image_loss) (f_of_nat ar 2))))"

section \<open>Alignment orchestrator\<close>

text \<open>
  The two encoders are external. The text model is read through its
  \<open>config.hidden_size\<close> and called with the text inputs (\<open>input_ids\<close>, \<open>attention_mask\<close>,
  \<open>token_type_ids\<close>, \<open>position_ids\<close> and the output flags, of type \<open>'t\<close>); the model gives its
  \<open>last_hidden_state\<close>. The vision model is called with the pixel values (of type \<open>'p\<close>)
  and returns an object of one of three kinds: one with a \<open>last_hidden_state\<close> attribute, a
  tensor, or a dictionary with a rank-4 tensor under the key \<open>z\<close>.
\<close>

record ('a, 't) text_encoder =
  text_hidden_size :: nat
  text_call :: "'t \<Rightarrow> error + 'a tensor3"

datatype 'a vision_out =
    HFOutput "'a tensor3"
  | TensorOut "'a tensor3"
  | DictOut "'a tensor4"

record ('a, 'm, 't, 'p) Adaptor =
  vision_model :: "'p \<Rightarrow> error + 'a vision_out"
  text_model :: "('a, 't) text_encoder"
  projection :: "'a Project"
  adaptor_module :: "('a, 'm) AdaptorModule"
  vision_model_type :: string
  vision_output_dim :: "nat option"
  projection_dim :: nat
  logit_scale_init_value :: "'a"
  logit_scale :: "'a"

record 'a CLIPOutput =
  loss :: "'a option"
  logits_per_image :: "'a tensor2"
  logits_per_text :: "'a tensor2"
  text_embeds :: "'a tensor3"
  image_embeds :: "'a tensor3"

text \<open>
  \<open>Adaptor.__init__\<close>: the sub-modules are built first, with \<open>vision_output_dim\<close> handed to
  \<open>Project\<close> as it came; the assertion on \<open>vision_output_dim\<close> is the last statement.
\<close>

definition Adaptor_init ::
  "'a arith \<Rightarrow> ('a, 'm) library \<Rightarrow> ('a, 't) text_encoder \<Rightarrow> ('p \<Rightarrow> error + 'a vision_out) \<Rightarrow>
   BertConfig option \<Rightarrow> string \<Rightarrow> nat option \<Rightarrow> 'a \<Rightarrow> nat \<Rightarrow>
   error + ('a, 'm, 't, 'p) Adaptor" where
  "Adaptor_init ar lib text_model_arg vision_model_arg adaptor_config vision_model_type_arg
       vision_output_dim_arg logit_scale_init_value_arg projection_dim_arg =
     (case Project_init lib (text_hidden_size text_model_arg) vision_output_dim_arg
             projection_dim_arg of
        Inl e \<Rightarrow> Inl e
      | Inr proj \<Rightarrow>
     (case AdaptorModule_init lib adaptor_config 2 of
        Inl e \<Rightarrow> Inl e
      | Inr am \<Rightarrow>
     (if vision_model_type_arg \<noteq> ''transformer'' \<and> vision_output_dim_arg = None
      then Inl AssertionError
      else Inr \<lparr> vision_model = vision_model_arg, text_model = text_model_arg,
                  projection = proj, adaptor_module = am,
                  vision_model_type = vision_model_type_arg,
                  vision_output_dim = vision_output_dim_arg,
                  projection_dim = projection_dim_arg,
                  logit_scale_init_value = logit_scale_init_value_arg,
                  logit_scale = f_mul ar (f_of_nat ar 1) logit_scale_init_value_arg \<rparr>)))"

text \<open>
  The first statement of \<open>Adaptor.forward\<close>, the dispatch on \<open>vision_model_type\<close>. It gives
  what was printed and either an error or the state of the local variable
  \<open>image_embeds_raw\<close>: \<open>None\<close> when no branch has assigned it, \<open>Some v\<close> when it holds the
  object \<open>v\<close> (\<open>TensorOut x\<close> for a tensor \<open>x\<close>).
  \<^item> \<open>huggingface\<close>: the attribute \<open>last_hidden_state\<close> of the result is read; a tensor or a
    dictionary has none (\<open>AttributeError\<close>).
  \<^item> \<open>timm\<close>: the result is assigned as it is, whatever it is.
  \<^item> \<open>ae\<close>: the result is indexed with the key \<open>z\<close>; an object with a \<open>last_hidden_state\<close>
    has no such key (\<open>KeyError\<close>) and a tensor cannot be indexed with a string
    (\<open>IndexError\<close>). \<open>torch.flatten(z, start_dim=2)\<close> joins the last two axes of the rank-4
    tensor and \<open>permute((0, 2, 1))\<close> transposes every matrix of the batch.
  \<^item> any other tag: the message is printed and nothing is assigned.
\<close>

definition vision_stage ::
  "('a, 'm, 't, 'p) Adaptor \<Rightarrow> 'p \<Rightarrow> string list \<times> (error + 'a vision_out option)" where
  "vision_stage self pixel_values =
     (if vision_model_type self = ''huggingface'' then
        (case vision_model self pixel_values of
           Inl e \<Rightarrow> ([], Inl e)
         | Inr (HFOutput h) \<Rightarrow> ([], Inr (Some (TensorOut h)))
         | Inr _ \<Rightarrow> ([], Inl AttributeError))
      else if vision_model_type self = ''timm'' then
        (case vision_model self pixel_values of
           Inl e \<Rightarrow> ([], Inl e)
         | Inr v \<Rightarrow> ([], Inr (Some v)))
      else if vision_model_type self = ''ae'' then
        (case vision_model self pixel_values of
           Inl e \<Rightarrow> ([], Inl e)
         | Inr (DictOut z) \<Rightarrow> ([], Inr (Some (TensorOut (map mT (map (map concat) z)))))
         | Inr (HFOutput _) \<Rightarrow> ([], Inl KeyError)
         | Inr (TensorOut _) \<Rightarrow> ([], Inl IndexError))
      else ([vision_model_type self @ '' is not supported.''], Inr None))"

text \<open>
  The call \<open>self.projection(text_embeds_raw, image_embeds_raw)\<close> with the object that
  \<open>image_embeds_raw\<close> holds. For a tensor it is \<open>Project.forward\<close>. For any other object
  \<open>Project.forward\<close> still applies the text projection first, which may raise, and then the
  visual projection raises \<open>TypeError\<close>.
\<close>

definition projection_call ::
  "'a arith \<Rightarrow> 'a Project \<Rightarrow> 'a tensor3 \<Rightarrow> 'a vision_out \<Rightarrow>
   error + ('a tensor3 \<times> 'a tensor3)" where
  "projection_call ar proj text_embeds_raw image_raw =
     (case image_raw of
        TensorOut x \<Rightarrow> Project_forward ar proj text_embeds_raw x
      | _ \<Rightarrow>
          (case Linear_forward ar (text_projection proj) text_embeds_raw of
             Inl e \<Rightarrow> Inl e
           | Inr _ \<Rightarrow> Inl TypeError))"

text \<open>\<open>x[:, 0, :]\<close>: position 0 of every sequence; an empty sequence has none.\<close>

definition select0 :: "'a tensor3 \<Rightarrow> error + 'a tensor2" where
  "select0 x = (if list_all (\<lambda>r. r \<noteq> []) x then Inr (map hd x) else Inl IndexError)"

text \<open>
  The rest of \<open>Adaptor.forward\<close>, from the call of the text model on, with
  \<open>return_dict=True\<close> (the default). The program reassigns \<open>text_embeds\<close> and \<open>image_embeds\<close>;
  the successive values carry a number here.
\<close>

definition forward_rest ::
  "'a arith \<Rightarrow> ('a, 'm, 't, 'p) Adaptor \<Rightarrow> 't \<Rightarrow> 'a vision_out option \<Rightarrow> bool \<Rightarrow>
   error + 'a CLIPOutput" where
  "forward_rest ar self text_inputs image_embeds_raw return_loss =
     (case text_call (text_model self) text_inputs of
        Inl e \<Rightarrow> Inl e
      | Inr text_embeds_raw \<Rightarrow>
     (case image_embeds_raw of
        None \<Rightarrow> Inl UnboundLocalError
      | Some image_raw \<Rightarrow>
     (case projection_call ar (projection self) text_embeds_raw image_raw of
        Inl e \<Rightarrow> Inl e
      | Inr (image_embeds1, text_embeds1) \<Rightarrow>
     (case AdaptorModule_forward ar (adaptor_module self) text_embeds1 image_embeds1
             None None None None None of
        Inl e \<Rightarrow> Inl e
      | Inr outputs \<Rightarrow>
     (let text_seq_len = size1 text_embeds1;
          text_embeds2 = map (take text_seq_len) (last_hidden_state outputs);
          image_embeds2 = map (drop text_seq_len) (last_hidden_state outputs);
          image_embeds3 = normalize ar image_embeds2;
          text_embeds3 = normalize ar text_embeds2;
          scale = f_exp ar (logit_scale self) in
     (case select0 text_embeds3 of
        Inl e \<Rightarrow> Inl e
      | Inr text_summary \<Rightarrow>
     (case select0 image_embeds3 of
        Inl e \<Rightarrow> Inl e
      | Inr image_summary \<Rightarrow>
     (case matmul ar text_summary (mT image_summary) of
        Inl e \<Rightarrow> Inl e
      | Inr product \<Rightarrow>
     (let logits_text = map (map (\<lambda>x. f_mul ar x scale)) product;
          logits_image = mT logits_text in
     (case (if return_loss
            then (case clip_loss ar logits_text of
                    Inl e \<Rightarrow> Inl e
                  | Inr l \<Rightarrow> Inr (Some l))
            else Inr None) of
        Inl e \<Rightarrow> Inl e
      | Inr loss_value \<Rightarrow>
          Inr \<lparr> loss = loss_value, logits_per_image = logits_image,
                 logits_per_text = logits_text,
                 text_embeds = text_embeds3, image_embeds = image_embeds3 \<rparr>))))))))))"

definition Adaptor_forward ::
  "'a arith \<Rightarrow> ('a, 'm, 't, 'p) Adaptor \<Rightarrow> 't \<Rightarrow> 'p \<Rightarrow> bool \<Rightarrow>
   string list \<times> (error + 'a CLIPOutput)" where
  "Adaptor_forward ar self text_inputs pixel_values return_loss =
     (case vision_stage self pixel_values of
        (printed, Inl e) \<Rightarrow> (printed, Inl e)
      | (printed, Inr image_embeds_raw) \<Rightarrow>
          (printed, forward_rest ar self text_inputs image_embeds_raw return_loss))"

section \<open>A small instance\<close>

text \<open>
  A concrete instance over exact reals, on which the theorems below are run: projections
  with identity weights of width 2, a fusion encoder that returns its input sequence
  unchanged, a text model that returns one position for each of two texts and a vision
  model that returns two positions for each of two images. \<open>ex_linear\<close> stands for the
  constructor of \<open>nn.Linear\<close>: it cannot build a weight when the input width is \<open>None\<close>.
\<close>

definition ex_linear :: "nat option \<Rightarrow> nat \<Rightarrow> error + real Linear" where
  "ex_linear n_in n_out =
     (case n_in of
        None \<Rightarrow> Inl TypeError
      | Some n \<Rightarrow>
          Inr \<lparr> in_features = n, out_features = n_out,
                 weight = map (\<lambda>r. map (\<lambda>c. if r = c then 1 else 0) [0..<n]) [0..<n_out] \<rparr>)"

definition ex_library :: "(real, real tensor2) library" where
  "ex_library =
     \<lparr> nn_Linear = ex_linear,
       new_BertConfig = (\<lambda>n. \<lparr> hidden_size = 768, num_hidden_layers = n, is_decoder = False \<rparr>),
       new_BertEncoder = (\<lambda>cfg. Inr (\<lambda>args. Inr (inputs_embeds args))),
       new_BertPooler = (\<lambda>cfg. Inr select0),
       mixin_get_extended_attention_mask = (\<lambda>m shape. Inr m),
       mixin_invert_attention_mask = (\<lambda>m. Inr m),
       mixin_get_head_mask = (\<lambda>h n. Inr []) \<rparr>"

definition ex_text_model :: "(real, unit) text_encoder" where
  "ex_text_model = \<lparr> text_hidden_size = 2, text_call = (\<lambda>_. Inr [[[1, 0]], [[0, 1]]]) \<rparr>"

definition ex_vision_model :: "unit \<Rightarrow> error + real vision_out" where
  "ex_vision_model px = Inr (HFOutput [[[0, 2], [1, 0]], [[1, 0], [0, 1]]])"

definition ex_project :: "real Project" where
  "ex_project =
     \<lparr> text_embed_dim = 2, vision_embed_dim = Some 2, proj_projection_dim = 2,
       visual_projection = \<lparr> in_features = 2, out_features = 2, weight = [[1, 0], [0, 1]] \<rparr>,
       text_projection = \<lparr> in_features = 2, out_features = 2, weight = [[1, 0], [0, 1]] \<rparr> \<rparr>"

definition ex_module :: "(real, real tensor2) AdaptorModule" where
  "ex_module =
     \<lparr> config = \<lparr> hidden_size = 2, num_hidden_layers = 2, is_decoder = False \<rparr>,
       encoder = (\<lambda>args. Inr (inputs_embeds args)),
       pooler = select0,
       get_extended_attention_mask = (\<lambda>m shape. Inr m),
       invert_attention_mask = (\<lambda>m. Inr m),
       get_head_mask = (\<lambda>h n. Inr []) \<rparr>"

definition ex_adaptor :: "string \<Rightarrow> (real, real tensor2, unit, unit) Adaptor" where
  "ex_adaptor tag =
     \<lparr> vision_model = ex_vision_model, text_model = ex_text_model,
       projection = ex_project, adaptor_module = ex_module,
       vision_model_type = tag, vision_output_dim = Some 2, projection_dim = 2,
       logit_scale_init_value = 0, logit_scale = 0 \<rparr>"

text \<open>What the forward call returns on this instance, with and without the loss.\<close>

definition ex_output :: "bool \<Rightarrow> real CLIPOutput" where
  "ex_output return_loss =
     \<lparr> loss = (if return_loss then Some (ln (1 + exp 1)) else None),
       logits_per_image = [[0, 1], [1, 0]],
       logits_per_text = [[0, 1], [1, 0]],
       text_embeds = [[[1, 0]], [[0, 1]]],
       image_embeds = [[[0, 1], [1, 0]], [[1, 0], [0, 1]]] \<rparr>"

text \<open>The same instance with a vision model that returns three images for the two texts.\<close>

definition ex_vision_model3 :: "unit \<Rightarrow> error + real vision_out" where
  "ex_vision_model3 px = Inr (HFOutput [[[0, 2]], [[1, 0]], [[0, 1]]])"

definition ex_adaptor_mismatch :: "(real, real tensor2, unit, unit) Adaptor" where
  "ex_adaptor_mismatch = (ex_adaptor ''huggingface'') \<lparr> vision_model := ex_vision_model3 \<rparr>"

section \<open>The random generator\<close>















section \<open>Basic facts\<close>

lemma sqrt_25: "sqrt 25 = 5"
  using real_sqrt_abs [of 5] by simp

lemma size1_map2_append:
  "length t = length i \<Longrightarrow> size1 (map2 (@) t i) = size1 t + size1 i"
  by (cases t; cases i) (auto simp: size1_def)

text \<open>
  On the small instance the constructor succeeds when \<open>vision_output_dim\<close> is given, and
  with the defaults of the program (\<open>huggingface\<close>, no \<open>vision_output_dim\<close>) it fails in
  \<open>nn.Linear\<close>, before the assertion is reached.
\<close>

lemma ex_init_with_dim:
  "\<exists>a. Adaptor_init real_arith ex_library ex_text_model ex_vision_model None
         ''huggingface'' (Some 2) 0 2 = Inr a"
  by (simp add: Adaptor_init_def Project_init_def AdaptorModule_init_def ex_library_def
      ex_linear_def)

lemma ex_init_default:
  "Adaptor_init real_arith ex_library ex_text_model ex_vision_model None
     ''huggingface'' None 0 2 = Inl TypeError"
  by (simp add: Adaptor_init_def Project_init_def ex_library_def ex_linear_def)

lemma ex_project_run:
  "Project_forward real_arith ex_project [[[3, 4]]] [[[0, 2]]]
     = Inr ([[[0, 1]]], [[[3 / 5, 4 / 5]]])"
  by (simp add: Project_forward_def Linear_forward_def ex_project_def normalize_def
      normalize_vec_def denominator_def norm_last_def f_sum_def dot_def real_arith_def sqrt_25)

subsection \<open>What a successful forward call has computed\<close>

lemma forward_rest_Inr:
  assumes "forward_rest ar self ti raw rl = Inr out"
  obtains txt_raw img_raw img_e txt_e fused txt_s img_s product where
    "text_call (text_model self) ti = Inr txt_raw"
    "raw = Some (TensorOut img_raw)"
    "Project_forward ar (projection self) txt_raw img_raw = Inr (img_e, txt_e)"
    "AdaptorModule_forward ar (adaptor_module self) txt_e img_e None None None None None = Inr fused"
    "text_embeds out = normalize ar (map (take (size1 txt_e)) (last_hidden_state fused))"
    "image_embeds out = normalize ar (map (drop (size1 txt_e)) (last_hidden_state fused))"
    "select0 (text_embeds out) = Inr txt_s"
    "select0 (image_embeds out) = Inr img_s"
    "matmul ar txt_s (mT img_s) = Inr product"
    "logits_per_text out = map (map (\<lambda>x. f_mul ar x (f_exp ar (logit_scale self)))) product"
    "logits_per_image out = mT (logits_per_text out)"
    "if rl then \<exists>l. clip_loss ar (logits_per_text out) = Inr l \<and> loss out = Some l
     else loss out = None"
  using assms
  unfolding forward_rest_def projection_call_def Let_def
  by (auto split: sum.splits option.splits prod.splits if_splits vision_out.splits)

lemma Adaptor_forward_Inr:
  assumes "Adaptor_forward ar self ti px rl = (printed, Inr out)"
  obtains raw where "vision_stage self px = (printed, Inr raw)"
    "forward_rest ar self ti raw rl = Inr out"
  using assms unfolding Adaptor_forward_def
  by (auto split: sum.splits prod.splits)

subsection \<open>Transposition\<close>

lemma length_mT: "length (mT m) = ncols m"
  by (simp add: mT_def)

lemma rows_mT: "r \<in> set (mT m) \<Longrightarrow> length r = length m"
  by (auto simp: mT_def)

lemma nth_mT: "i < ncols m \<Longrightarrow> j < length m \<Longrightarrow> mT m ! i ! j = m ! j ! i"
  by (simp add: mT_def)

lemma ncols_mT: "ncols m \<noteq> 0 \<Longrightarrow> ncols (mT m) = length m"
  by (cases "ncols m") (simp_all add: mT_def ncols_def upt_conv_Cons del: upt_Suc)

lemma mT_mT:
  assumes "\<forall>r\<in>set m. length r = ncols m" and "ncols m \<noteq> 0"
  shows "mT (mT m) = m"
proof (rule nth_equalityI)
  show len: "length (mT (mT m)) = length m"
    using assms(2) by (simp add: length_mT ncols_mT)
  fix i assume i: "i < length (mT (mT m))"
  then have im: "i < length m" using len by simp
  have ic: "i < ncols (mT m)" using i by (simp add: length_mT)
  show "mT (mT m) ! i = m ! i"
  proof (rule nth_equalityI)
    have "mT (mT m) ! i \<in> set (mT (mT m))" using i by simp
    then have "length (mT (mT m) ! i) = length (mT m)" by (rule rows_mT)
    also have "\<dots> = ncols m" by (rule length_mT)
    also have "\<dots> = length (m ! i)" using assms(1) im by simp
    finally show l2: "length (mT (mT m) ! i) = length (m ! i)" .
    fix j assume "j < length (mT (mT m) ! i)"
    then have j: "j < ncols m" using l2 assms(1) im by simp
    have "mT (mT m) ! i ! j = mT m ! j ! i"
      using ic j by (simp add: nth_mT length_mT)
    also have "\<dots> = m ! i ! j" using j im by (simp add: nth_mT)
    finally show "mT (mT m) ! i ! j = m ! i ! j" .
  qed
qed

subsection \<open>Norms and shapes\<close>

lemma f_sum_zeros:
  assumes "f_add ar (f_of_nat ar 0) (f_of_nat ar 0) = f_of_nat ar 0"
  shows "f_sum ar (replicate n (f_of_nat ar 0)) = f_of_nat ar 0"
  unfolding f_sum_def using assms by (induction n) simp_all

lemma length_normalize: "length (normalize ar x) = length x"
  by (simp add: normalize_def)

lemma map_length_normalize: "map length (normalize ar x) = map length x"
  by (simp add: normalize_def)

lemma Project_forward_shape:
  assumes "Project_forward ar self txt img = Inr (out1, out2)"
  shows "map length out1 = map length img" "map length out2 = map length txt"
  using assms
  by (auto simp: Project_forward_def Linear_forward_def normalize_def
      split: sum.splits if_splits)

lemma AdaptorModule_forward_Inr:
  assumes "AdaptorModule_forward ar am t i None None None None None = Inr fused"
  shows "embeddings t i = Inr (map2 (@) t i) \<and> length t = length i
         \<and> (\<exists>args. encoder am args = Inr (last_hidden_state fused)
                    \<and> inputs_embeds args = map2 (@) t i)"
proof -
  from assms have e: "embeddings t i = Inr (map2 (@) t i)" and l: "length t = length i"
    unfolding AdaptorModule_forward_def Let_def embeddings_def
    by (auto split: sum.splits if_splits)
  from assms e obtain m h where
    "encoder am \<lparr> inputs_embeds = map2 (@) t i, attention_mask = m, head_mask = h,
         encoder_hidden_states = None, encoder_attention_mask = None,
         past_key_values = None, use_cache = False \<rparr> = Inr (last_hidden_state fused)"
    unfolding AdaptorModule_forward_def Let_def
    by (auto split: sum.splits)
  then have "\<exists>args. encoder am args = Inr (last_hidden_state fused)
                    \<and> inputs_embeds args = map2 (@) t i"
    by (intro exI conjI) (assumption, simp)
  with e l show ?thesis by simp
qed

lemma AdaptorModule_forward_batch_mismatch:
  "length t \<noteq> length i \<Longrightarrow>
   AdaptorModule_forward ar am t i am_arg hm ehs eam pkv = Inl RuntimeError"
  by (simp add: AdaptorModule_forward_def embeddings_def)

lemma Project_forward_batch:
  assumes "Project_forward ar self txt img = Inr (out1, out2)"
  shows "length out1 = length img" "length out2 = length txt"
  using Project_forward_shape [OF assms] by (metis length_map)+

lemma ex_mismatch_project:
  "Project_forward real_arith ex_project [[[1, 0]], [[0, 1]]] [[[0, 2]], [[1, 0]], [[0, 1]]]
     = Inr ([[[0, 1]], [[1, 0]], [[0, 1]]], [[[1, 0]], [[0, 1]]])"
  by (simp add: Project_forward_def Linear_forward_def ex_project_def normalize_def
      normalize_vec_def denominator_def norm_last_def f_sum_def dot_def real_arith_def)

subsection \<open>The shape of the logits\<close>

lemma select0_Inr:
  assumes "select0 x = Inr s"
  shows "s = map hd x" "\<forall>r\<in>set x. r \<noteq> []"
  using assms by (auto simp: select0_def list_all_iff split: if_splits)

lemma matmul_Inr:
  assumes "matmul ar a b = Inr p"
  shows "p = map (\<lambda>r. map (\<lambda>c. dot ar r c) (mT b)) a"
  using assms by (auto simp: matmul_def split: if_splits)

lemma ncols_mT_cases: "ncols (mT m) = (if ncols m = 0 then 0 else length m)"
  by (cases "ncols m = 0") (simp_all add: ncols_mT, simp add: mT_def ncols_def)

lemma forward_logits_shape:
  assumes "forward_rest ar self ti raw rl = Inr out"
  shows "length (image_embeds out) = length (text_embeds out)"
    and "\<forall>r\<in>set (image_embeds out). r \<noteq> []"
    and "length (logits_per_text out) = length (text_embeds out)"
    and "\<forall>r\<in>set (logits_per_text out). length r =
           (if ncols (map hd (image_embeds out)) = 0 then 0 else length (text_embeds out))"
    and "logits_per_image out = mT (logits_per_text out)"
proof -
  obtain txt_raw img_raw img_e txt_e fused txt_s img_s product where
    "text_call (text_model self) ti = Inr txt_raw"
    and "raw = Some (TensorOut img_raw)"
    and "Project_forward ar (projection self) txt_raw img_raw = Inr (img_e, txt_e)"
    and "AdaptorModule_forward ar (adaptor_module self) txt_e img_e None None None None None
           = Inr fused"
    and te: "text_embeds out = normalize ar (map (take (size1 txt_e)) (last_hidden_state fused))"
    and ie: "image_embeds out = normalize ar (map (drop (size1 txt_e)) (last_hidden_state fused))"
    and ts: "select0 (text_embeds out) = Inr txt_s"
    and iss: "select0 (image_embeds out) = Inr img_s"
    and mm: "matmul ar txt_s (mT img_s) = Inr product"
    and lt: "logits_per_text out
               = map (map (\<lambda>x. f_mul ar x (f_exp ar (logit_scale self)))) product"
    and li: "logits_per_image out = mT (logits_per_text out)"
    and "if rl then \<exists>l. clip_loss ar (logits_per_text out) = Inr l \<and> loss out = Some l
         else loss out = None"
    by (rule forward_rest_Inr [OF assms])
  show b: "length (image_embeds out) = length (text_embeds out)"
    by (simp add: te ie length_normalize)
  show "\<forall>r\<in>set (image_embeds out). r \<noteq> []"
    using select0_Inr(2) [OF iss] .
  have s1: "txt_s = map hd (text_embeds out)" and s2: "img_s = map hd (image_embeds out)"
    using select0_Inr(1) [OF ts] select0_Inr(1) [OF iss] by simp_all
  have p: "product = map (\<lambda>r. map (\<lambda>c. dot ar r c) (mT (mT img_s))) txt_s"
    using matmul_Inr [OF mm] .
  show "length (logits_per_text out) = length (text_embeds out)"
    by (simp add: lt p s1)
  have "length (mT (mT img_s)) = (if ncols img_s = 0 then 0 else length img_s)"
    by (simp add: length_mT ncols_mT_cases)
  then show "\<forall>r\<in>set (logits_per_text out). length r =
           (if ncols (map hd (image_embeds out)) = 0 then 0 else length (text_embeds out))"
    using b by (auto simp: lt p s2)
  show "logits_per_image out = mT (logits_per_text out)" by (rule li)
qed

lemma ncols_pos:
  assumes "m \<noteq> []" and "\<forall>v\<in>set m. v \<noteq> []"
  shows "ncols m \<noteq> 0"
  using assms by (cases m) (simp_all add: ncols_def)

subsection \<open>The forward call on the small instance\<close>

lemma ex_hf_project:
  "Project_forward real_arith ex_project [[[1, 0]], [[0, 1]]] [[[0, 2], [1, 0]], [[1, 0], [0, 1]]]
     = Inr ([[[0, 1], [1, 0]], [[1, 0], [0, 1]]], [[[1, 0]], [[0, 1]]])"
  by (simp add: Project_forward_def Linear_forward_def ex_project_def normalize_def
      normalize_vec_def denominator_def norm_last_def f_sum_def dot_def real_arith_def)

lemma ex_hf_fusion:
  "AdaptorModule_forward real_arith ex_module [[[1, 0]], [[0, 1]]]
     [[[0, 1], [1, 0]], [[1, 0], [0, 1]]] None None None None None
   = Inr \<lparr> last_hidden_state = [[[1, 0], [0, 1], [1, 0]], [[0, 1], [1, 0], [0, 1]]],
            pooler_output = [[1, 0], [0, 1]] \<rparr>"
  by (simp add: AdaptorModule_forward_def embeddings_def widths_def ex_module_def size1_def
      ones_def select0_def)

lemma ex_clip_loss:
  "clip_loss real_arith [[0, 1], [1, 0]] = Inr (ln (1 + exp 1))"
  by (simp add: clip_loss_def contrastive_loss_def mT_def ncols_def f_sum_def real_arith_def
      upt_conv_Cons add.commute del: upt_Suc)

lemma real_arith_sel:
  "f_add real_arith = (+)" "f_sub real_arith = (-)" "f_mul real_arith = (*)"
  "f_div real_arith = (/)" "f_sqrt real_arith = sqrt" "f_exp real_arith = exp"
  "f_log real_arith = ln" "f_of_nat real_arith = of_nat"
  by (simp_all add: real_arith_def)

lemma ex_forward_rest_run:
  "forward_rest real_arith (ex_adaptor ''huggingface'') ()
     (Some (TensorOut [[[0, 2], [1, 0]], [[1, 0], [0, 1]]])) rl = Inr (ex_output rl)"
  by (simp add: forward_rest_def projection_call_def ex_adaptor_def ex_text_model_def ex_hf_project ex_hf_fusion
      size1_def normalize_def normalize_vec_def denominator_def norm_last_def f_sum_def
      select0_def matmul_def mT_def ncols_def dot_def upt_conv_Cons ex_output_def
      ex_clip_loss real_arith_sel Let_def del: upt_Suc)

lemma ex_vision_stage_run:
  "vision_stage (ex_adaptor ''huggingface'') ()
     = ([], Inr (Some (TensorOut [[[0, 2], [1, 0]], [[1, 0], [0, 1]]])))"
  by (simp add: vision_stage_def ex_adaptor_def ex_vision_model_def)

lemma ex_forward_run:
  "Adaptor_forward real_arith (ex_adaptor ''huggingface'') () () rl = ([], Inr (ex_output rl))"
  by (simp add: Adaptor_forward_def ex_vision_stage_run ex_forward_rest_run)

subsection \<open>The loss\<close>

lemma contrastive_loss_Inr:
  assumes "contrastive_loss ar m = Inr l"
  shows "\<forall>r\<in>set m. length m \<le> length r"
  using assms by (auto simp: contrastive_loss_def list_all_iff split: if_splits)

lemma clip_loss_Inr:
  assumes "clip_loss ar m = Inr l"
  obtains a b where "contrastive_loss ar m = Inr a" "contrastive_loss ar (mT m) = Inr b"
    "l = f_div ar (f_add ar a b) (f_of_nat ar 2)"
  using assms by (auto simp: clip_loss_def split: sum.splits)

subsection \<open>The forward call with a dropout encoder\<close>










section \<open>The vision backbone tag\<close>

text \<open>
  C1. The claim is that a vision-backbone tag outside the three supported ones makes the
  forward call fail with an UnsupportedBackbone error, without printing a message and
  going on. What the program does with such a tag: it prints
  \<open>"<tag> is not supported."\<close>, raises nothing, goes on to call the text model, and then fails
  with \<open>UnboundLocalError\<close> when it reads \<open>image_embeds_raw\<close>, which no branch has assigned
  (or with the error of the text model, if that raises first).
\<close>

theorem unsupported_tag_prints_and_continues:
  assumes "vision_model_type self \<notin> {''huggingface'', ''timm'', ''ae''}"
  shows "Adaptor_forward ar self text_inputs pixel_values return_loss =
          ([vision_model_type self @ '' is not supported.''],
           (case text_call (text_model self) text_inputs of
              Inl e \<Rightarrow> Inl e
            | Inr _ \<Rightarrow> Inl UnboundLocalError))"
  using assms
  by (simp add: Adaptor_forward_def vision_stage_def forward_rest_def split: sum.splits)

theorem unsupported_tag_prints_and_continues_witness:
  "vision_model_type (ex_adaptor ''resnet'') \<notin> {''huggingface'', ''timm'', ''ae''}
   \<and> Adaptor_forward real_arith (ex_adaptor ''resnet'') () () True =
       ([''resnet is not supported.''], Inl UnboundLocalError)"
proof -
  have h: "vision_model_type (ex_adaptor ''resnet'') \<notin> {''huggingface'', ''timm'', ''ae''}"
    by (simp add: ex_adaptor_def)
  show ?thesis
    using h unsupported_tag_prints_and_continues [OF h, of real_arith "()" "()" True]
    by (simp add: ex_adaptor_def ex_text_model_def)
qed

section \<open>Construction\<close>

text \<open>
  C2. The claim is that omitting \<open>vision_output_dim\<close> is accepted for the self-describing
  tag \<open>huggingface\<close>, and rejected for the other tags before any other effect of the
  constructor. In the program the constructor cannot succeed for the tag \<open>huggingface\<close>
  with \<open>vision_output_dim\<close> omitted, whatever the library constructors do: the \<open>None\<close> goes
  to \<open>Project\<close> (and on to \<open>nn.Linear\<close>) first; if the sub-modules get built all the same,
  the assertion, which is the last statement and compares the tag with \<open>transformer\<close>, fails.
\<close>

theorem Adaptor_init_huggingface_without_dim_fails:
  "Adaptor_init ar lib tm vm cfg ''huggingface'' None s d =
     (case Project_init lib (text_hidden_size tm) None d of
        Inl e \<Rightarrow> Inl e
      | Inr _ \<Rightarrow>
          (case AdaptorModule_init lib cfg 2 of
             Inl e \<Rightarrow> Inl e
           | Inr _ \<Rightarrow> Inl AssertionError))"
  by (simp add: Adaptor_init_def split: sum.splits)

section \<open>Batch sizes that differ\<close>

text \<open>
  C3 as stated: when the batch sizes of the text and image inputs differ, the forward
  call fails with a BatchSizeMismatch error before any tensor is passed into the fusion
  encoder. With two texts and three images the projection runs to its end, both
  projected tensors are handed to the fusion encoder, and the error of the forward call
  is the \<open>RuntimeError\<close> that the fusion encoder returns for them.
\<close>

theorem batch_mismatch_counterexample:
  "Project_forward real_arith ex_project [[[1, 0]], [[0, 1]]] [[[0, 2]], [[1, 0]], [[0, 1]]]
     = Inr ([[[0, 1]], [[1, 0]], [[0, 1]]], [[[1, 0]], [[0, 1]]])
   \<and> AdaptorModule_forward real_arith ex_module [[[1, 0]], [[0, 1]]]
        [[[0, 1]], [[1, 0]], [[0, 1]]] None None None None None = Inl RuntimeError
   \<and> Adaptor_forward real_arith ex_adaptor_mismatch () () True = ([], Inl RuntimeError)"
  by (simp add: ex_mismatch_project Adaptor_forward_def vision_stage_def forward_rest_def
      projection_call_def
      ex_adaptor_mismatch_def ex_adaptor_def ex_vision_model3_def ex_text_model_def
      AdaptorModule_forward_def embeddings_def)

text \<open>
  C3 as amended: when the batch sizes differ (the two encoders and the projection having
  succeeded), the forward call fails with the \<open>RuntimeError\<close> of the concatenation, which
  is the first step of the fusion encoder's own forward; the program has no check of the
  batch sizes before it.
\<close>

theorem batch_mismatch_fails_inside_fusion:
  assumes "vision_stage self px = (printed, Inr (Some (TensorOut img_raw)))"
      and "text_call (text_model self) ti = Inr txt_raw"
      and "Project_forward ar (projection self) txt_raw img_raw = Inr (img_e, txt_e)"
      and "length txt_raw \<noteq> length img_raw"
  shows "embeddings txt_e img_e = Inl RuntimeError
         \<and> AdaptorModule_forward ar (adaptor_module self) txt_e img_e None None None None None
             = Inl RuntimeError
         \<and> Adaptor_forward ar self ti px rl = (printed, Inl RuntimeError)"
proof -
  have ne: "length txt_e \<noteq> length img_e"
    using Project_forward_batch [OF assms(3)] assms(4) by simp
  then have e: "embeddings txt_e img_e = Inl RuntimeError"
    by (simp add: embeddings_def)
  have m: "AdaptorModule_forward ar (adaptor_module self) txt_e img_e None None None None None
             = Inl RuntimeError"
    using ne by (rule AdaptorModule_forward_batch_mismatch)
  have "forward_rest ar self ti (Some (TensorOut img_raw)) rl = Inl RuntimeError"
    by (simp add: forward_rest_def projection_call_def assms(2,3) m)
  then have "Adaptor_forward ar self ti px rl = (printed, Inl RuntimeError)"
    by (simp add: Adaptor_forward_def assms(1))
  with e m show ?thesis by simp
qed

theorem batch_mismatch_fails_inside_fusion_witness:
  "vision_stage ex_adaptor_mismatch ()
     = ([], Inr (Some (TensorOut [[[0, 2]], [[1, 0]], [[0, 1]]])))
   \<and> text_call (text_model ex_adaptor_mismatch) () = Inr [[[1, 0]], [[0, 1]]]
   \<and> length [[[1, 0::real]], [[0, 1]]] \<noteq> length [[[0, 2::real]], [[1, 0]], [[0, 1]]]
   \<and> embeddings [[[1, 0::real]], [[0, 1]]] [[[0, 1]], [[1, 0]], [[0, 1]]] = Inl RuntimeError
   \<and> Adaptor_forward real_arith ex_adaptor_mismatch () () False = ([], Inl RuntimeError)"
proof -
  have v: "vision_stage ex_adaptor_mismatch ()
     = ([], Inr (Some (TensorOut [[[0, 2]], [[1, 0]], [[0, 1]]])))"
    by (simp add: vision_stage_def ex_adaptor_mismatch_def ex_adaptor_def ex_vision_model3_def)
  have t: "text_call (text_model ex_adaptor_mismatch) () = Inr [[[1, 0]], [[0, 1]]]"
    by (simp add: ex_adaptor_mismatch_def ex_adaptor_def ex_text_model_def)
  have p: "Project_forward real_arith (projection ex_adaptor_mismatch) [[[1, 0]], [[0, 1]]]
             [[[0, 2]], [[1, 0]], [[0, 1]]]
           = Inr ([[[0, 1]], [[1, 0]], [[0, 1]]], [[[1, 0]], [[0, 1]]])"
    using ex_mismatch_project by (simp add: ex_adaptor_mismatch_def ex_adaptor_def)
  have l: "length [[[1, 0::real]], [[0, 1]]] \<noteq> length [[[0, 2::real]], [[1, 0]], [[0, 1]]]"
    by simp
  show ?thesis
    using batch_mismatch_fails_inside_fusion [OF v t p l, of False] v t l by simp
qed

section \<open>The denominator of the normalisation\<close>

text \<open>
  C4 as stated: the normalisation of the projection heads and the renormalisation after
  fusion divide by a denominator that is never exactly zero. Both are \<open>normalize\<close>, whose
  denominator is the norm itself; for the all-zero vector it is zero.
\<close>

theorem denominator_zero_counterexample:
  "denominator real_arith [0, 0] = 0"
  by (simp add: denominator_def norm_last_def f_sum_def real_arith_def)

text \<open>
  C4 as amended: the normalisation of the projection heads and the renormalisation
  after fusion divide every vector by its plain L2 norm, the square root of the sum of
  the squares of its entries, with no epsilon added and no guard; for the all-zero
  vector of any length this denominator is exactly zero and every entry of the result is
  zero divided by zero. This holds in every arithmetic in which \<open>0 * 0\<close>, \<open>0 + 0\<close> and the
  square root of \<open>0\<close> are \<open>0\<close>, as they are in floating point. Nothing is promised for other
  vectors: in floating point the squares of small non-zero entries underflow to zero.
\<close>

theorem normalize_divides_by_plain_norm:
  assumes "f_mul ar (f_of_nat ar 0) (f_of_nat ar 0) = f_of_nat ar 0"
      and "f_add ar (f_of_nat ar 0) (f_of_nat ar 0) = f_of_nat ar 0"
      and "f_sqrt ar (f_of_nat ar 0) = f_of_nat ar 0"
  shows "denominator ar v = f_sqrt ar (f_sum ar (map (\<lambda>e. f_mul ar e e) v))
       \<and> normalize ar x = map (map (\<lambda>u. map (\<lambda>e. f_div ar e (denominator ar u)) u)) x
       \<and> denominator ar (replicate n (f_of_nat ar 0)) = f_of_nat ar 0
       \<and> normalize_vec ar (replicate n (f_of_nat ar 0))
           = replicate n (f_div ar (f_of_nat ar 0) (f_of_nat ar 0))"
proof -
  have d: "denominator ar (replicate n (f_of_nat ar 0)) = f_of_nat ar 0"
    by (simp add: denominator_def norm_last_def assms(1) assms(3) f_sum_zeros [OF assms(2)])
  have "normalize_vec ar (replicate n (f_of_nat ar 0))
          = replicate n (f_div ar (f_of_nat ar 0) (f_of_nat ar 0))"
    unfolding normalize_vec_def d by simp
  with d show ?thesis
    by (simp add: denominator_def norm_last_def normalize_def normalize_vec_def)
qed

theorem normalize_divides_by_plain_norm_witness:
  "denominator real_arith [3, 4] = 5
   \<and> normalize real_arith [[[3, 4]]] = [[[3 / 5, 4 / 5]]]
   \<and> denominator real_arith (replicate 3 0) = 0"
proof -
  have z: "f_mul real_arith (f_of_nat real_arith 0) (f_of_nat real_arith 0) = f_of_nat real_arith 0"
    "f_add real_arith (f_of_nat real_arith 0) (f_of_nat real_arith 0) = f_of_nat real_arith 0"
    "f_sqrt real_arith (f_of_nat real_arith 0) = f_of_nat real_arith 0"
    by (simp_all add: real_arith_sel)
  note t = normalize_divides_by_plain_norm [OF z, of "[3, 4]" "[[[3, 4]]]" 3]
  have five: "f_sqrt real_arith (f_sum real_arith (map (\<lambda>e. f_mul real_arith e e) [3, 4])) = 5"
    by (simp add: f_sum_def real_arith_sel sqrt_25)
  from t five have d: "denominator real_arith [3, 4] = 5" by simp
  from t have "normalize real_arith [[[3, 4]]]
      = [[[f_div real_arith 3 (denominator real_arith [3, 4]),
           f_div real_arith 4 (denominator real_arith [3, 4])]]]"
    by simp
  then have n: "normalize real_arith [[[3, 4]]] = [[[3 / 5, 4 / 5]]]"
    by (simp add: d real_arith_sel)
  from t have "denominator real_arith (replicate 3 0) = 0"
    by (simp add: real_arith_sel)
  with d n show ?thesis by simp
qed

section \<open>The two logit matrices\<close>

text \<open>
  C5. Whenever the forward call returns, for a batch of any size \<open>B\<close>,
  \<open>logits_per_image\<close> is the transpose of \<open>logits_per_text\<close>, computed from it by \<open>.T\<close> and
  from nothing else: both are \<open>B\<close> by \<open>B\<close> and entry \<open>(i, j)\<close> of the one is entry \<open>(j, i)\<close> of
  the other, the same scalar and not a recomputed one. (The hidden width is taken to be
  at least 1: a nested list cannot hold a matrix with \<open>B\<close> rows of width 0.)
\<close>

theorem logits_per_image_is_transpose:
  assumes run: "Adaptor_forward ar self ti px rl = (printed, Inr out)"
      and width: "\<forall>r\<in>set (image_embeds out). \<forall>v\<in>set r. v \<noteq> []"
      and B: "B = length (text_embeds out)"
  shows "logits_per_image out = mT (logits_per_text out)
         \<and> length (logits_per_text out) = B
         \<and> (\<forall>r\<in>set (logits_per_text out). length r = B)
         \<and> length (logits_per_image out) = B
         \<and> (\<forall>r\<in>set (logits_per_image out). length r = B)
         \<and> (\<forall>i<B. \<forall>j<B. logits_per_image out ! i ! j = logits_per_text out ! j ! i)"
proof -
  obtain raw where "vision_stage self px = (printed, Inr raw)"
    and fr: "forward_rest ar self ti raw rl = Inr out"
    by (rule Adaptor_forward_Inr [OF run])
  note sh = forward_logits_shape [OF fr]
  let ?T = "logits_per_text out" and ?I = "logits_per_image out"
  have tr: "?I = mT ?T" by (rule sh(5))
  have lenT: "length ?T = B" using sh(3) B by simp
  have rows: "\<forall>r\<in>set ?T. length r = B"
  proof (cases "B = 0")
    case True
    with lenT show ?thesis by simp
  next
    case False
    then have ne: "image_embeds out \<noteq> []" using sh(1) B by auto
    have "\<forall>v\<in>set (map hd (image_embeds out)). v \<noteq> []"
      using width sh(2) by (auto intro: hd_in_set)
    then have "ncols (map hd (image_embeds out)) \<noteq> 0"
      using ne by (intro ncols_pos) simp_all
    then show ?thesis using sh(4) B by simp
  qed
  have nc: "ncols ?T = B"
    using lenT rows by (cases ?T) (auto simp: ncols_def)
  have lenI: "length ?I = B" by (simp add: tr length_mT nc)
  have rowsI: "\<forall>r\<in>set ?I. length r = B"
    using rows_mT [of _ ?T] lenT by (simp add: tr)
  have ent: "\<forall>i<B. \<forall>j<B. ?I ! i ! j = ?T ! j ! i"
    by (simp add: tr nth_mT nc lenT)
  from tr lenT rows lenI rowsI ent show ?thesis by simp
qed

theorem logits_per_image_is_transpose_witness:
  "Adaptor_forward real_arith (ex_adaptor ''huggingface'') () () False
     = ([], Inr (ex_output False))
   \<and> length (text_embeds (ex_output False)) = 2
   \<and> logits_per_image (ex_output False) = mT (logits_per_text (ex_output False))
   \<and> length (logits_per_text (ex_output False)) = 2
   \<and> length (logits_per_image (ex_output False)) = 2
   \<and> logits_per_image (ex_output False) ! 0 ! 1 = logits_per_text (ex_output False) ! 1 ! 0
   \<and> logits_per_image (ex_output False) ! 1 ! 0 = logits_per_text (ex_output False) ! 0 ! 1"
proof -
  have run: "Adaptor_forward real_arith (ex_adaptor ''huggingface'') () () False
               = ([], Inr (ex_output False))"
    by (rule ex_forward_run)
  have width: "\<forall>r\<in>set (image_embeds (ex_output False)). \<forall>v\<in>set r. v \<noteq> []"
    by (simp add: ex_output_def)
  have B: "2 = length (text_embeds (ex_output False))"
    by (simp add: ex_output_def)
  note t = logits_per_image_is_transpose [OF run width B]
  from t have ent: "\<forall>i<2. \<forall>j<2. logits_per_image (ex_output False) ! i ! j
                      = logits_per_text (ex_output False) ! j ! i"
    by blast
  have e01: "logits_per_image (ex_output False) ! 0 ! 1 = logits_per_text (ex_output False) ! 1 ! 0"
    using ent [rule_format, of 0 1] by simp
  have e10: "logits_per_image (ex_output False) ! 1 ! 0 = logits_per_text (ex_output False) ! 0 ! 1"
    using ent [rule_format, of 1 0] by simp
  from t have rest: "logits_per_image (ex_output False) = mT (logits_per_text (ex_output False))"
    "length (logits_per_text (ex_output False)) = 2"
    "length (logits_per_image (ex_output False)) = 2"
    by blast+
  from run B [symmetric] rest e01 e10 show ?thesis by blast
qed

section \<open>The contrastive loss\<close>

text \<open>
  C6. When \<open>return_loss\<close> is true and the forward call returns, the loss is the
  cross-entropy of \<open>logits_per_text\<close> against the identity target plus that of
  \<open>logits_per_image\<close> against the same target, halved (their average); and the loss
  recomputed with the roles of text and image swapped, that is from the transposed
  logits, is the same value. Addition of scalars is taken to be commutative, as it is for
  reals and for floating-point numbers; nothing else is assumed of the arithmetic.
\<close>

theorem loss_is_symmetric_average:
  assumes run: "Adaptor_forward ar self ti px True = (printed, Inr out)"
      and comm: "\<forall>x y. f_add ar x y = f_add ar y x"
  shows "\<exists>l_text l_image.
           contrastive_loss ar (logits_per_text out) = Inr l_text
         \<and> contrastive_loss ar (logits_per_image out) = Inr l_image
         \<and> loss out = Some (f_div ar (f_add ar l_text l_image) (f_of_nat ar 2))
         \<and> clip_loss ar (logits_per_image out)
             = Inr (f_div ar (f_add ar l_text l_image) (f_of_nat ar 2))"
proof -
  obtain raw where "vision_stage self px = (printed, Inr raw)"
    and fr: "forward_rest ar self ti raw True = Inr out"
    by (rule Adaptor_forward_Inr [OF run])
  note sh = forward_logits_shape [OF fr]
  let ?T = "logits_per_text out"
  obtain txt_raw img_raw img_e txt_e fused txt_s img_s product where
    "text_call (text_model self) ti = Inr txt_raw"
    and "raw = Some (TensorOut img_raw)"
    and "Project_forward ar (projection self) txt_raw img_raw = Inr (img_e, txt_e)"
    and "AdaptorModule_forward ar (adaptor_module self) txt_e img_e None None None None None
           = Inr fused"
    and "text_embeds out = normalize ar (map (take (size1 txt_e)) (last_hidden_state fused))"
    and "image_embeds out = normalize ar (map (drop (size1 txt_e)) (last_hidden_state fused))"
    and "select0 (text_embeds out) = Inr txt_s"
    and "select0 (image_embeds out) = Inr img_s"
    and "matmul ar txt_s (mT img_s) = Inr product"
    and "logits_per_text out
               = map (map (\<lambda>x. f_mul ar x (f_exp ar (logit_scale self)))) product"
    and "logits_per_image out = mT (logits_per_text out)"
    and ls: "if True then \<exists>l. clip_loss ar (logits_per_text out) = Inr l \<and> loss out = Some l
         else loss out = None"
    by (rule forward_rest_Inr [OF fr])
  from ls obtain l where cl: "clip_loss ar ?T = Inr l" and lo: "loss out = Some l"
    by auto
  obtain a b where a: "contrastive_loss ar ?T = Inr a"
    and b: "contrastive_loss ar (mT ?T) = Inr b"
    and l: "l = f_div ar (f_add ar a b) (f_of_nat ar 2)"
    by (rule clip_loss_Inr [OF cl])
  have TT: "mT (mT ?T) = ?T"
  proof (cases "?T = []")
    case True
    then show ?thesis by (simp add: mT_def ncols_def)
  next
    case False
    define B where "B = length (text_embeds out)"
    have lenT: "length ?T = B" using sh(3) B_def by simp
    with False have Bpos: "B \<noteq> 0" by auto
    have ge: "\<forall>r\<in>set ?T. B \<le> length r"
      using contrastive_loss_Inr [OF a] lenT by simp
    have rows: "\<forall>r\<in>set ?T. length r = B"
    proof
      fix r assume r: "r \<in> set ?T"
      with ge Bpos have "length r \<noteq> 0" by auto
      with sh(4) r show "length r = B" unfolding B_def by (auto split: if_splits)
    qed
    have nc: "ncols ?T = B"
      using False rows by (cases ?T) (auto simp: ncols_def)
    show ?thesis
      using rows nc Bpos by (intro mT_mT) simp_all
  qed
  have "clip_loss ar (mT ?T) = Inr (f_div ar (f_add ar b a) (f_of_nat ar 2))"
    by (simp add: clip_loss_def b TT a)
  also have "f_add ar b a = f_add ar a b" using comm by simp
  finally have sym: "clip_loss ar (mT ?T) = Inr (f_div ar (f_add ar a b) (f_of_nat ar 2))" .
  show ?thesis
    using a b lo l sym sh(5) by auto
qed

theorem loss_is_symmetric_average_witness:
  "Adaptor_forward real_arith (ex_adaptor ''huggingface'') () () True
     = ([], Inr (ex_output True))
   \<and> (\<forall>x y. f_add real_arith x y = f_add real_arith y x)
   \<and> loss (ex_output True) = Some (ln (1 + exp 1))
   \<and> clip_loss real_arith (logits_per_image (ex_output True)) = Inr (ln (1 + exp 1))"
proof -
  have run: "Adaptor_forward real_arith (ex_adaptor ''huggingface'') () () True
               = ([], Inr (ex_output True))"
    by (rule ex_forward_run)
  have comm: "\<forall>x y. f_add real_arith x y = f_add real_arith y x"
    by (simp add: real_arith_sel)
  have lo: "loss (ex_output True) = Some (ln (1 + exp 1))"
    by (simp add: ex_output_def)
  from loss_is_symmetric_average [OF run comm] lo
  have "clip_loss real_arith (logits_per_image (ex_output True)) = Inr (ln (1 + exp 1))"
    by auto
  with run comm lo show ?thesis by blast
qed

section \<open>Sequence lengths through fusion\<close>

text \<open>
  C7. Let the text model return sequences of \<open>Lt\<close> positions and the vision stage
  sequences of \<open>Li\<close> positions, and let the encoder of the transformers library return a
  sequence for each one it gets, of the same length. Whenever the forward call returns,
  the sequence given to the encoder is the text sequence followed by the image
  sequence, the fused sequence has \<open>Lt + Li\<close> positions for every entry of the batch,
  and the split at \<open>Lt\<close> gives text slices of exactly \<open>Lt\<close> positions and image slices of
  exactly \<open>Li\<close> positions, for every batch size.
\<close>

theorem fused_sequence_length_and_split:
  assumes run: "Adaptor_forward ar self ti px rl = (printed, Inr out)"
      and vis: "vision_stage self px = (printed, Inr (Some (TensorOut img_raw)))"
      and tcall: "text_call (text_model self) ti = Inr txt_raw"
      and Lt: "\<forall>r\<in>set txt_raw. length r = Lt"
      and Li: "\<forall>r\<in>set img_raw. length r = Li"
      and enc: "\<forall>args y. encoder (adaptor_module self) args = Inr y
                  \<longrightarrow> map length y = map length (inputs_embeds args)"
  shows "\<exists>img_e txt_e fused.
           Project_forward ar (projection self) txt_raw img_raw = Inr (img_e, txt_e)
         \<and> embeddings txt_e img_e = Inr (map2 (@) txt_e img_e)
         \<and> AdaptorModule_forward ar (adaptor_module self) txt_e img_e None None None None None
             = Inr fused
         \<and> length (last_hidden_state fused) = length txt_raw
         \<and> (\<forall>r\<in>set (last_hidden_state fused). length r = Lt + Li)
         \<and> text_embeds out = normalize ar (map (take Lt) (last_hidden_state fused))
         \<and> image_embeds out = normalize ar (map (drop Lt) (last_hidden_state fused))
         \<and> length (text_embeds out) = length txt_raw
         \<and> length (image_embeds out) = length txt_raw
         \<and> (\<forall>r\<in>set (text_embeds out). length r = Lt)
         \<and> (\<forall>r\<in>set (image_embeds out). length r = Li)"
proof -
  have fr: "forward_rest ar self ti (Some (TensorOut img_raw)) rl = Inr out"
    using run vis by (simp add: Adaptor_forward_def)
  obtain txt_raw' img_raw' img_e txt_e fused txt_s img_s product where
    t': "text_call (text_model self) ti = Inr txt_raw'"
    and i': "Some (TensorOut img_raw) = Some (TensorOut img_raw')"
    and pf: "Project_forward ar (projection self) txt_raw' img_raw' = Inr (img_e, txt_e)"
    and af: "AdaptorModule_forward ar (adaptor_module self) txt_e img_e None None None None None
           = Inr fused"
    and te: "text_embeds out = normalize ar (map (take (size1 txt_e)) (last_hidden_state fused))"
    and ie: "image_embeds out = normalize ar (map (drop (size1 txt_e)) (last_hidden_state fused))"
    and "select0 (text_embeds out) = Inr txt_s"
    and "select0 (image_embeds out) = Inr img_s"
    and "matmul ar txt_s (mT img_s) = Inr product"
    and "logits_per_text out
               = map (map (\<lambda>x. f_mul ar x (f_exp ar (logit_scale self)))) product"
    and "logits_per_image out = mT (logits_per_text out)"
    and "if rl then \<exists>l. clip_loss ar (logits_per_text out) = Inr l \<and> loss out = Some l
         else loss out = None"
    by (rule forward_rest_Inr [OF fr])
  have eq: "txt_raw' = txt_raw" "img_raw' = img_raw" using t' tcall i' by simp_all
  note pf = pf [unfolded eq]
  note shp = Project_forward_shape [OF pf]
  have rt: "\<forall>r\<in>set txt_e. length r = Lt"
  proof
    fix r assume "r \<in> set txt_e"
    then have "length r \<in> set (map length txt_e)" by simp
    then have "length r \<in> set (map length txt_raw)" using shp(2) by simp
    then show "length r = Lt" using Lt by auto
  qed
  have ri: "\<forall>r\<in>set img_e. length r = Li"
  proof
    fix r assume "r \<in> set img_e"
    then have "length r \<in> set (map length img_e)" by simp
    then have "length r \<in> set (map length img_raw)" using shp(1) by simp
    then show "length r = Li" using Li by auto
  qed
  have lt: "length txt_e = length txt_raw"
    using Project_forward_batch(2) [OF pf] .
  from AdaptorModule_forward_Inr [OF af] obtain args where
    em: "embeddings txt_e img_e = Inr (map2 (@) txt_e img_e)"
    and ll: "length txt_e = length img_e"
    and ea: "encoder (adaptor_module self) args = Inr (last_hidden_state fused)"
    and ia: "inputs_embeds args = map2 (@) txt_e img_e"
    by blast
  let ?F = "last_hidden_state fused"
  have ml: "map length ?F = map length (map2 (@) txt_e img_e)"
    using enc ea ia by auto
  have lenF: "length ?F = length txt_raw"
    using arg_cong [OF ml, of length] ll lt by simp
  have rowsF: "\<forall>r\<in>set ?F. length r = Lt + Li"
  proof
    fix r assume "r \<in> set ?F"
    then have "length r \<in> set (map length ?F)" by simp
    then have "length r \<in> set (map length (map2 (@) txt_e img_e))" using ml by simp
    then obtain a b where ab: "(a, b) \<in> set (zip txt_e img_e)"
      and lr: "length r = length a + length b"
      by auto
    have "a \<in> set txt_e" and "b \<in> set img_e"
      using ab by (auto dest: set_zip_leftD set_zip_rightD)
    then show "length r = Lt + Li"
      using rt ri lr by simp
  qed
  have sz: "?F \<noteq> [] \<Longrightarrow> size1 txt_e = Lt"
    using lenF lt rt by (cases txt_e) (auto simp: size1_def)
  have te': "text_embeds out = normalize ar (map (take Lt) ?F)"
    using te sz by (cases "?F = []") simp_all
  have ie': "image_embeds out = normalize ar (map (drop Lt) ?F)"
    using ie sz by (cases "?F = []") simp_all
  have l1: "length (text_embeds out) = length txt_raw"
    by (simp add: te' length_normalize lenF)
  have l2: "length (image_embeds out) = length txt_raw"
    by (simp add: ie' length_normalize lenF)
  have r1: "\<forall>r\<in>set (text_embeds out). length r = Lt"
  proof
    fix r assume "r \<in> set (text_embeds out)"
    then have "length r \<in> set (map length (text_embeds out))" by simp
    then have "length r \<in> set (map length (map (take Lt) ?F))"
      by (simp only: te' map_length_normalize)
    then show "length r = Lt" using rowsF by auto
  qed
  have r2: "\<forall>r\<in>set (image_embeds out). length r = Li"
  proof
    fix r assume "r \<in> set (image_embeds out)"
    then have "length r \<in> set (map length (image_embeds out))" by simp
    then have "length r \<in> set (map length (map (drop Lt) ?F))"
      by (simp only: ie' map_length_normalize)
    then show "length r = Li" using rowsF by auto
  qed
  from pf em af lenF rowsF te' ie' l1 l2 r1 r2 show ?thesis by blast
qed

theorem fused_sequence_length_and_split_witness:
  "Adaptor_forward real_arith (ex_adaptor ''huggingface'') () () False
     = ([], Inr (ex_output False))
   \<and> length (text_embeds (ex_output False)) = 2
   \<and> length (image_embeds (ex_output False)) = 2
   \<and> list_all (\<lambda>r. length r = 1) (text_embeds (ex_output False))
   \<and> list_all (\<lambda>r. length r = 2) (image_embeds (ex_output False))"
proof -
  have run: "Adaptor_forward real_arith (ex_adaptor ''huggingface'') () () False
               = ([], Inr (ex_output False))"
    by (rule ex_forward_run)
  have tcall: "text_call (text_model (ex_adaptor ''huggingface'')) () = Inr [[[1, 0]], [[0, 1]]]"
    by (simp add: ex_adaptor_def ex_text_model_def)
  have Lt: "\<forall>r\<in>set [[[1, 0::real]], [[0, 1]]]. length r = 1"
    by simp
  have Li: "\<forall>r\<in>set [[[0, 2::real], [1, 0]], [[1, 0], [0, 1]]]. length r = 2"
    by simp
  have enc: "\<forall>args y. encoder (adaptor_module (ex_adaptor ''huggingface'')) args = Inr y
               \<longrightarrow> map length y = map length (inputs_embeds args)"
    by (simp add: ex_adaptor_def ex_module_def)
  from fused_sequence_length_and_split [OF run ex_vision_stage_run tcall Lt Li enc]
  have "length (text_embeds (ex_output False)) = length [[[1, 0::real]], [[0, 1]]]
        \<and> length (image_embeds (ex_output False)) = length [[[1, 0::real]], [[0, 1]]]
        \<and> (\<forall>r\<in>set (text_embeds (ex_output False)). length r = 1)
        \<and> (\<forall>r\<in>set (image_embeds (ex_output False)). length r = 2)"
    by blast
  with run show ?thesis by (simp add: list_all_iff)
qed

section \<open>Two calls with the same inputs\<close>




section \<open>The default attention mask\<close>

text \<open>
  C8. Running the fusion encoder with the attention mask omitted is the same as running
  it with an explicit all-ones mask of shape \<open>[batch, Lt + Li]\<close>, for all inputs, whatever
  the encoder, the pooler and the mask utilities are (no cached keys and values, as in
  this core): the results are equal, also when they are errors.
\<close>

theorem AdaptorModule_forward_mask_omitted:
  "AdaptorModule_forward ar am t i None hm ehs eam None =
   AdaptorModule_forward ar am t i (Some (ones ar (length t) (size1 t + size1 i))) hm ehs eam None"
  by (auto simp: AdaptorModule_forward_def embeddings_def size1_map2_append split: sum.splits)

section \<open>The order of the projected pair\<close>

text \<open>
  C10. \<open>Project.forward\<close> takes (text, image) and returns (image, text): whenever it
  returns, the first component is the normalised visual projection of its second
  argument and the second component the normalised text projection of its first
  argument, each with the batch size and sequence lengths of the argument it comes from.
\<close>

theorem Project_forward_returns_image_first:
  assumes "Project_forward ar self text_in image_in = Inr (out1, out2)"
  shows "\<exists>pi pt. Linear_forward ar (visual_projection self) image_in = Inr pi
           \<and> Linear_forward ar (text_projection self) text_in = Inr pt
           \<and> out1 = normalize ar pi \<and> out2 = normalize ar pt
           \<and> map length out1 = map length image_in
           \<and> map length out2 = map length text_in"
  using assms
  by (auto simp: Project_forward_def Linear_forward_def normalize_def
      split: sum.splits if_splits)

theorem Project_forward_returns_image_first_witness:
  "Project_forward real_arith ex_project [[[3, 4]]] [[[0, 2]]]
     = Inr ([[[0, 1]]], [[[3 / 5, 4 / 5]]])
   \<and> (\<exists>pi pt. Linear_forward real_arith (visual_projection ex_project) [[[0, 2]]] = Inr pi
           \<and> Linear_forward real_arith (text_projection ex_project) [[[3, 4]]] = Inr pt
           \<and> [[[0, 1]]] = normalize real_arith pi
           \<and> [[[3 / 5, 4 / 5]]] = normalize real_arith pt
           \<and> map length [[[0, 1::real]]] = map length [[[0, 2::real]]]
           \<and> map length [[[3 / 5, 4 / 5::real]]] = map length [[[3, 4::real]]])"
  using Project_forward_returns_image_first [OF ex_project_run] ex_project_run by simp

end
